theory Spec2Isabelle
  imports Main "HOL-Library.Word"
begin

unbundle bit_operations_syntax

section \<open>The platform descriptor of include/sbi/sbi_platform.h\<close>

text \<open>
  The header declares one packed structure, \<^verbatim>\<open>struct sbi_platform\<close>, six
  feature-test macros and twenty inline accessors. The accessors are embedded below as
  HOL functions over a record that mirrors the structure field by field.

  \<^item> Fixed-width C integers are words: \<^verbatim>\<open>u32\<close> and \<^verbatim>\<open>int\<close> are 32 bits,
    \<^verbatim>\<open>u64\<close> is 64 bits, \<^verbatim>\<open>char\<close> is 8 bits. \<^verbatim>\<open>ulong\<close> and data pointers
    are taken at the 64-bit width of an RV64 build.
  \<^item> A pointer that may be \<^verbatim>\<open>NULL\<close> is an \<open>option\<close>: \<open>None\<close> is the null pointer.
    This holds for the descriptor pointer handed to every accessor and for each
    function-pointer member of the structure.
  \<^item> A board entry point is code outside this header. It may read and write memory,
    drive devices, and (\<^verbatim>\<open>ipi_sync\<close>) wait without bound. It is a function from the
    world before the call to \<open>Some\<close> of its return value and the world after, or to
    \<open>None\<close> when it never returns.
\<close>

type_synonym u32 = "32 word"
type_synonym u64 = "64 word"
type_synonym c_int = "32 word"
type_synonym ulong = "64 word"
type_synonym c_char = "8 word"
type_synonym addr = "64 word"

text \<open>
  The world an entry point acts on: the memory that \<^verbatim>\<open>ulong *\<close> arguments point
  into, and the state of whatever the board drives (left abstract as \<open>'d\<close>).
\<close>

record 'd world =
  mem :: "addr \<Rightarrow> ulong"
  dev :: 'd

type_synonym ('d, 'r) call = "'d world \<Rightarrow> ('r \<times> 'd world) option"
type_synonym 'd proc = "'d world \<Rightarrow> 'd world option"

record 'd sbi_platform =
  name :: "c_char list"
  features :: u64
  hart_count :: u32
  hart_stack_size :: u32
  disabled_hart_mask :: u64
  early_init :: "(u32 \<Rightarrow> bool \<Rightarrow> ('d, c_int) call) option"
  final_init :: "(u32 \<Rightarrow> bool \<Rightarrow> ('d, c_int) call) option"
  pmp_region_count :: "(u32 \<Rightarrow> ('d, u32) call) option"
  pmp_region_info :: "(u32 \<Rightarrow> u32 \<Rightarrow> addr \<Rightarrow> addr \<Rightarrow> addr \<Rightarrow> ('d, c_int) call) option"
  console_putc :: "(c_char \<Rightarrow> 'd proc) option"
  console_getc :: "(('d, c_char) call) option"
  console_init :: "(('d, c_int) call) option"
  irqchip_init :: "(u32 \<Rightarrow> bool \<Rightarrow> ('d, c_int) call) option"
  ipi_inject :: "(u32 \<Rightarrow> u32 \<Rightarrow> 'd proc) option"
  ipi_sync :: "(u32 \<Rightarrow> u32 \<Rightarrow> 'd proc) option"
  ipi_clear :: "(u32 \<Rightarrow> 'd proc) option"
  ipi_init :: "(u32 \<Rightarrow> bool \<Rightarrow> ('d, c_int) call) option"
  timer_value :: "(('d, u64) call) option"
  timer_event_start :: "(u32 \<Rightarrow> u64 \<Rightarrow> 'd proc) option"
  timer_event_stop :: "(u32 \<Rightarrow> 'd proc) option"
  timer_init :: "(u32 \<Rightarrow> bool \<Rightarrow> ('d, c_int) call) option"
  system_reboot :: "(u32 \<Rightarrow> ('d, c_int) call) option"
  system_shutdown :: "(u32 \<Rightarrow> ('d, c_int) call) option"

text \<open>
  What a C expression can do instead of yielding a value: read through a null pointer,
  or shift an \<^verbatim>\<open>int\<close> by at least its width (the standard leaves the result
  undefined; the header's code has no guard against either).
\<close>

datatype fault = NullDereference | ShiftOutOfRange

subsection \<open>Feature flags\<close>

text \<open>The enumerators of \<^verbatim>\<open>enum sbi_platform_features\<close>, \<^verbatim>\<open>(1 << k)\<close> each.\<close>

definition SBI_PLATFORM_HAS_MMIO_TIMER_VALUE :: c_int where
  "SBI_PLATFORM_HAS_MMIO_TIMER_VALUE = push_bit 0 1"

definition SBI_PLATFORM_HAS_HART_HOTPLUG :: c_int where
  "SBI_PLATFORM_HAS_HART_HOTPLUG = push_bit 1 1"

definition SBI_PLATFORM_HAS_PMP :: c_int where
  "SBI_PLATFORM_HAS_PMP = push_bit 2 1"

definition SBI_PLATFORM_HAS_SCOUNTEREN :: c_int where
  "SBI_PLATFORM_HAS_SCOUNTEREN = push_bit 3 1"

definition SBI_PLATFORM_HAS_MCOUNTEREN :: c_int where
  "SBI_PLATFORM_HAS_MCOUNTEREN = push_bit 4 1"

definition SBI_PLATFORM_HAS_MFAULTS_DELEGATION :: c_int where
  "SBI_PLATFORM_HAS_MFAULTS_DELEGATION = push_bit 5 1"

text \<open>The macro \<^verbatim>\<open>SBI_PLATFORM_DEFAULT_FEATURES\<close>: every flag but hart hotplug.\<close>

definition SBI_PLATFORM_DEFAULT_FEATURES :: c_int where
  "SBI_PLATFORM_DEFAULT_FEATURES =
     SBI_PLATFORM_HAS_MMIO_TIMER_VALUE OR SBI_PLATFORM_HAS_PMP OR SBI_PLATFORM_HAS_SCOUNTEREN OR
     SBI_PLATFORM_HAS_MCOUNTEREN OR SBI_PLATFORM_HAS_MFAULTS_DELEGATION"

text \<open>
  \<^verbatim>\<open>u64 & int\<close>: the usual arithmetic conversions turn the \<^verbatim>\<open>int\<close> operand into
  a \<^verbatim>\<open>u64\<close> of the same value modulo \<open>2^64\<close>, which is sign extension (\<open>scast\<close>).
\<close>

definition and_u64_int :: "u64 \<Rightarrow> c_int \<Rightarrow> u64" where
  "and_u64_int x v = x AND scast v"

text \<open>
  The six macros \<^verbatim>\<open>sbi_platform_has_*(__p)\<close> expand to
  \<^verbatim>\<open>((__p)->features & FLAG)\<close>. There is no test of \<^verbatim>\<open>__p\<close>: the member is read
  through whatever pointer is given.
\<close>

definition sbi_platform_has_mmio_timer_value :: "'d sbi_platform option \<Rightarrow> fault + u64" where
  "sbi_platform_has_mmio_timer_value p =
     (case p of None \<Rightarrow> Inl NullDereference
      | Some d \<Rightarrow> Inr (and_u64_int (features d) SBI_PLATFORM_HAS_MMIO_TIMER_VALUE))"

definition sbi_platform_has_hart_hotplug :: "'d sbi_platform option \<Rightarrow> fault + u64" where
  "sbi_platform_has_hart_hotplug p =
     (case p of None \<Rightarrow> Inl NullDereference
      | Some d \<Rightarrow> Inr (and_u64_int (features d) SBI_PLATFORM_HAS_HART_HOTPLUG))"

definition sbi_platform_has_pmp :: "'d sbi_platform option \<Rightarrow> fault + u64" where
  "sbi_platform_has_pmp p =
     (case p of None \<Rightarrow> Inl NullDereference
      | Some d \<Rightarrow> Inr (and_u64_int (features d) SBI_PLATFORM_HAS_PMP))"

definition sbi_platform_has_scounteren :: "'d sbi_platform option \<Rightarrow> fault + u64" where
  "sbi_platform_has_scounteren p =
     (case p of None \<Rightarrow> Inl NullDereference
      | Some d \<Rightarrow> Inr (and_u64_int (features d) SBI_PLATFORM_HAS_SCOUNTEREN))"

definition sbi_platform_has_mcounteren :: "'d sbi_platform option \<Rightarrow> fault + u64" where
  "sbi_platform_has_mcounteren p =
     (case p of None \<Rightarrow> Inl NullDereference
      | Some d \<Rightarrow> Inr (and_u64_int (features d) SBI_PLATFORM_HAS_MCOUNTEREN))"

definition sbi_platform_has_mfaults_delegation :: "'d sbi_platform option \<Rightarrow> fault + u64" where
  "sbi_platform_has_mfaults_delegation p =
     (case p of None \<Rightarrow> Inl NullDereference
      | Some d \<Rightarrow> Inr (and_u64_int (features d) SBI_PLATFORM_HAS_MFAULTS_DELEGATION))"

subsection \<open>Identity and topology accessors\<close>

text \<open>
  \<^verbatim>\<open>sbi_platform_name\<close> returns a pointer to the name array, or \<^verbatim>\<open>NULL\<close>;
  the result is \<open>Some\<close> of the array's contents, or \<open>None\<close>.
\<close>

definition sbi_platform_name :: "'d sbi_platform option \<Rightarrow> c_char list option" where
  "sbi_platform_name plat = (case plat of Some p \<Rightarrow> Some (name p) | None \<Rightarrow> None)"

text \<open>
  \<^verbatim>\<open>1 << hartid\<close>: the left operand is the \<^verbatim>\<open>int\<close> constant 1, so the shift is done
  at 32 bits and its result is an \<^verbatim>\<open>int\<close>. A count of 32 or more is undefined. A
  count of 31 moves the 1 into the sign bit; the compilers this firmware is built with
  document that as the two's-complement result, \<^verbatim>\<open>INT_MIN\<close>.
\<close>

definition shl_int :: "c_int \<Rightarrow> u32 \<Rightarrow> fault + c_int" where
  "shl_int a n = (if unat n < 32 then Inr (push_bit (unat n) a) else Inl ShiftOutOfRange)"

text \<open>The condition \<^verbatim>\<open>mask & v\<close> of an \<^verbatim>\<open>if\<close>: true when the result is not zero.\<close>

definition hart_mask_test :: "u64 \<Rightarrow> c_int \<Rightarrow> bool" where
  "hart_mask_test m v = (and_u64_int m v \<noteq> 0)"

text \<open>
  \<^verbatim>\<open>&&\<close> evaluates its right operand only when \<^verbatim>\<open>plat\<close> is not null, so a null
  descriptor yields 0 whatever \<^verbatim>\<open>hartid\<close> is.
\<close>

definition sbi_platform_hart_disabled :: "'d sbi_platform option \<Rightarrow> u32 \<Rightarrow> fault + bool" where
  "sbi_platform_hart_disabled plat hartid =
     (case plat of
        None \<Rightarrow> Inr False
      | Some p \<Rightarrow>
          (case shl_int 1 hartid of
             Inl e \<Rightarrow> Inl e
           | Inr v \<Rightarrow> if hart_mask_test (disabled_hart_mask p) v then Inr True else Inr False))"

definition sbi_platform_hart_count :: "'d sbi_platform option \<Rightarrow> u32" where
  "sbi_platform_hart_count plat = (case plat of Some p \<Rightarrow> hart_count p | None \<Rightarrow> 0)"

definition sbi_platform_hart_stack_size :: "'d sbi_platform option \<Rightarrow> u32" where
  "sbi_platform_hart_stack_size plat = (case plat of Some p \<Rightarrow> hart_stack_size p | None \<Rightarrow> 0)"

subsection \<open>Dispatching accessors\<close>

text \<open>
  Each of the remaining seventeen accessors has the same body:
  \<^verbatim>\<open>if (plat && plat->op) return plat->op(args); return 0;\<close>
  (without the \<^verbatim>\<open>return\<close>s when the operation is \<^verbatim>\<open>void\<close>). The entry point is
  called with the accessor's own arguments and its result is the accessor's result.
  When nothing is called the accessor returns at once and the world is as it was.
\<close>

definition sbi_platform_early_init :: "'d sbi_platform option \<Rightarrow> u32 \<Rightarrow> bool \<Rightarrow> ('d, c_int) call" where
  "sbi_platform_early_init plat hartid cold_boot w =
     (case plat of
        None \<Rightarrow> Some (0, w)
      | Some p \<Rightarrow> (case early_init p of None \<Rightarrow> Some (0, w) | Some f \<Rightarrow> f hartid cold_boot w))"

definition sbi_platform_final_init :: "'d sbi_platform option \<Rightarrow> u32 \<Rightarrow> bool \<Rightarrow> ('d, c_int) call" where
  "sbi_platform_final_init plat hartid cold_boot w =
     (case plat of
        None \<Rightarrow> Some (0, w)
      | Some p \<Rightarrow> (case final_init p of None \<Rightarrow> Some (0, w) | Some f \<Rightarrow> f hartid cold_boot w))"

definition sbi_platform_pmp_region_count :: "'d sbi_platform option \<Rightarrow> u32 \<Rightarrow> ('d, u32) call" where
  "sbi_platform_pmp_region_count plat hartid w =
     (case plat of
        None \<Rightarrow> Some (0, w)
      | Some p \<Rightarrow> (case pmp_region_count p of None \<Rightarrow> Some (0, w) | Some f \<Rightarrow> f hartid w))"

text \<open>
  \<^verbatim>\<open>prot\<close>, \<^verbatim>\<open>addr\<close> and \<^verbatim>\<open>log2size\<close> are \<^verbatim>\<open>ulong *\<close>: addresses
  into \<open>mem\<close>. The accessor hands them to the entry point and does not itself read or
  write through them.
\<close>

definition sbi_platform_pmp_region_info :: "'d sbi_platform option \<Rightarrow> u32 \<Rightarrow> u32 \<Rightarrow> addr \<Rightarrow> addr \<Rightarrow> addr \<Rightarrow> ('d, c_int) call" where
  "sbi_platform_pmp_region_info plat hartid index prot addr log2size w =
     (case plat of
        None \<Rightarrow> Some (0, w)
      | Some p \<Rightarrow> (case pmp_region_info p of None \<Rightarrow> Some (0, w) | Some f \<Rightarrow> f hartid index prot addr log2size w))"

definition sbi_platform_console_putc :: "'d sbi_platform option \<Rightarrow> c_char \<Rightarrow> 'd proc" where
  "sbi_platform_console_putc plat ch w =
     (case plat of
        None \<Rightarrow> Some w
      | Some p \<Rightarrow> (case console_putc p of None \<Rightarrow> Some w | Some f \<Rightarrow> f ch w))"

definition sbi_platform_console_getc :: "'d sbi_platform option \<Rightarrow> ('d, c_char) call" where
  "sbi_platform_console_getc plat w =
     (case plat of
        None \<Rightarrow> Some (0, w)
      | Some p \<Rightarrow> (case console_getc p of None \<Rightarrow> Some (0, w) | Some f \<Rightarrow> f w))"

definition sbi_platform_console_init :: "'d sbi_platform option \<Rightarrow> ('d, c_int) call" where
  "sbi_platform_console_init plat w =
     (case plat of
        None \<Rightarrow> Some (0, w)
      | Some p \<Rightarrow> (case console_init p of None \<Rightarrow> Some (0, w) | Some f \<Rightarrow> f w))"

definition sbi_platform_irqchip_init :: "'d sbi_platform option \<Rightarrow> u32 \<Rightarrow> bool \<Rightarrow> ('d, c_int) call" where
  "sbi_platform_irqchip_init plat hartid cold_boot w =
     (case plat of
        None \<Rightarrow> Some (0, w)
      | Some p \<Rightarrow> (case irqchip_init p of None \<Rightarrow> Some (0, w) | Some f \<Rightarrow> f hartid cold_boot w))"

definition sbi_platform_ipi_inject :: "'d sbi_platform option \<Rightarrow> u32 \<Rightarrow> u32 \<Rightarrow> 'd proc" where
  "sbi_platform_ipi_inject plat target_hart source_hart w =
     (case plat of
        None \<Rightarrow> Some w
      | Some p \<Rightarrow> (case ipi_inject p of None \<Rightarrow> Some w | Some f \<Rightarrow> f target_hart source_hart w))"

definition sbi_platform_ipi_sync :: "'d sbi_platform option \<Rightarrow> u32 \<Rightarrow> u32 \<Rightarrow> 'd proc" where
  "sbi_platform_ipi_sync plat target_hart source_hart w =
     (case plat of
        None \<Rightarrow> Some w
      | Some p \<Rightarrow> (case ipi_sync p of None \<Rightarrow> Some w | Some f \<Rightarrow> f target_hart source_hart w))"

definition sbi_platform_ipi_clear :: "'d sbi_platform option \<Rightarrow> u32 \<Rightarrow> 'd proc" where
  "sbi_platform_ipi_clear plat target_hart w =
     (case plat of
        None \<Rightarrow> Some w
      | Some p \<Rightarrow> (case ipi_clear p of None \<Rightarrow> Some w | Some f \<Rightarrow> f target_hart w))"

definition sbi_platform_ipi_init :: "'d sbi_platform option \<Rightarrow> u32 \<Rightarrow> bool \<Rightarrow> ('d, c_int) call" where
  "sbi_platform_ipi_init plat hartid cold_boot w =
     (case plat of
        None \<Rightarrow> Some (0, w)
      | Some p \<Rightarrow> (case ipi_init p of None \<Rightarrow> Some (0, w) | Some f \<Rightarrow> f hartid cold_boot w))"

definition sbi_platform_timer_value :: "'d sbi_platform option \<Rightarrow> ('d, u64) call" where
  "sbi_platform_timer_value plat w =
     (case plat of
        None \<Rightarrow> Some (0, w)
      | Some p \<Rightarrow> (case timer_value p of None \<Rightarrow> Some (0, w) | Some f \<Rightarrow> f w))"

definition sbi_platform_timer_event_start :: "'d sbi_platform option \<Rightarrow> u32 \<Rightarrow> u64 \<Rightarrow> 'd proc" where
  "sbi_platform_timer_event_start plat target_hart next_event w =
     (case plat of
        None \<Rightarrow> Some w
      | Some p \<Rightarrow> (case timer_event_start p of None \<Rightarrow> Some w | Some f \<Rightarrow> f target_hart next_event w))"

definition sbi_platform_timer_event_stop :: "'d sbi_platform option \<Rightarrow> u32 \<Rightarrow> 'd proc" where
  "sbi_platform_timer_event_stop plat target_hart w =
     (case plat of
        None \<Rightarrow> Some w
      | Some p \<Rightarrow> (case timer_event_stop p of None \<Rightarrow> Some w | Some f \<Rightarrow> f target_hart w))"

definition sbi_platform_timer_init :: "'d sbi_platform option \<Rightarrow> u32 \<Rightarrow> bool \<Rightarrow> ('d, c_int) call" where
  "sbi_platform_timer_init plat hartid cold_boot w =
     (case plat of
        None \<Rightarrow> Some (0, w)
      | Some p \<Rightarrow> (case timer_init p of None \<Rightarrow> Some (0, w) | Some f \<Rightarrow> f hartid cold_boot w))"

definition sbi_platform_system_reboot :: "'d sbi_platform option \<Rightarrow> u32 \<Rightarrow> ('d, c_int) call" where
  "sbi_platform_system_reboot plat type w =
     (case plat of
        None \<Rightarrow> Some (0, w)
      | Some p \<Rightarrow> (case system_reboot p of None \<Rightarrow> Some (0, w) | Some f \<Rightarrow> f type w))"

definition sbi_platform_system_shutdown :: "'d sbi_platform option \<Rightarrow> u32 \<Rightarrow> ('d, c_int) call" where
  "sbi_platform_system_shutdown plat type w =
     (case plat of
        None \<Rightarrow> Some (0, w)
      | Some p \<Rightarrow> (case system_shutdown p of None \<Rightarrow> Some (0, w) | Some f \<Rightarrow> f type w))"

subsection \<open>Layout of the packed structure\<close>

text \<open>
  \<^verbatim>\<open>struct sbi_platform\<close> is declared \<^verbatim>\<open>__packed\<close>: no padding is inserted, so a
  member starts where the members declared before it end. The members are listed in
  declaration order with their C types; the width of a function pointer depends on the
  target and is a parameter.
\<close>

datatype member_type = Char_array nat | U32 | U64 | Function_pointer

primrec member_size :: "nat \<Rightarrow> member_type \<Rightarrow> nat" where
  "member_size ps (Char_array n) = n"
| "member_size ps U32 = 4"
| "member_size ps U64 = 8"
| "member_size ps Function_pointer = ps"

definition sbi_platform_members :: "(string \<times> member_type) list" where
  "sbi_platform_members =
     [(''name'', Char_array 64),
      (''features'', U64),
      (''hart_count'', U32),
      (''hart_stack_size'', U32),
      (''disabled_hart_mask'', U64),
      (''early_init'', Function_pointer),
      (''final_init'', Function_pointer),
      (''pmp_region_count'', Function_pointer),
      (''pmp_region_info'', Function_pointer),
      (''console_putc'', Function_pointer),
      (''console_getc'', Function_pointer),
      (''console_init'', Function_pointer),
      (''irqchip_init'', Function_pointer),
      (''ipi_inject'', Function_pointer),
      (''ipi_sync'', Function_pointer),
      (''ipi_clear'', Function_pointer),
      (''ipi_init'', Function_pointer),
      (''timer_value'', Function_pointer),
      (''timer_event_start'', Function_pointer),
      (''timer_event_stop'', Function_pointer),
      (''timer_init'', Function_pointer),
      (''system_reboot'', Function_pointer),
      (''system_shutdown'', Function_pointer)]"

primrec packed_offset :: "nat \<Rightarrow> (string \<times> member_type) list \<Rightarrow> string \<Rightarrow> nat option" where
  "packed_offset ps [] f = None"
| "packed_offset ps (m # ms) f =
     (if fst m = f then Some 0
      else (case packed_offset ps ms f of
              None \<Rightarrow> None
            | Some off \<Rightarrow> Some (member_size ps (snd m) + off)))"

text \<open>The four offsets the header publishes for code that cannot see the structure.\<close>

definition SBI_PLATFORM_NAME_OFFSET :: nat where
  "SBI_PLATFORM_NAME_OFFSET = 0x0"

definition SBI_PLATFORM_FEATURES_OFFSET :: nat where
  "SBI_PLATFORM_FEATURES_OFFSET = 0x40"

definition SBI_PLATFORM_HART_COUNT_OFFSET :: nat where
  "SBI_PLATFORM_HART_COUNT_OFFSET = 0x48"

definition SBI_PLATFORM_HART_STACK_SIZE_OFFSET :: nat where
  "SBI_PLATFORM_HART_STACK_SIZE_OFFSET = 0x4c"

subsection \<open>Descriptors and worlds used as concrete instances\<close>

text \<open>
  \<open>bare_platform\<close> is a board that implements nothing: every entry point is null.
  \<open>counting_platform\<close> implements everything; each of its entry points adds one to the
  device state, so the device state counts the calls that reached the board, and each
  returns a value that no default of the header produces.
\<close>

definition bare_platform :: "nat sbi_platform" where
  "bare_platform =
     \<lparr>name = [], features = 0, hart_count = 0, hart_stack_size = 0, disabled_hart_mask = 0,
      early_init = None, final_init = None, pmp_region_count = None, pmp_region_info = None,
      console_putc = None, console_getc = None, console_init = None, irqchip_init = None,
      ipi_inject = None, ipi_sync = None, ipi_clear = None, ipi_init = None,
      timer_value = None, timer_event_start = None, timer_event_stop = None,
      timer_init = None, system_reboot = None, system_shutdown = None\<rparr>"

definition bump :: "nat world \<Rightarrow> nat world" where
  "bump w = w\<lparr>dev := Suc (dev w)\<rparr>"

definition counting_platform :: "nat sbi_platform" where
  "counting_platform =
     \<lparr>name = [0x71, 0x65, 0x6d, 0x75], features = 0, hart_count = 4,
      hart_stack_size = 4096, disabled_hart_mask = 0,
      early_init = Some (\<lambda>hartid cold_boot w. Some (- 1, bump w)),
      final_init = Some (\<lambda>hartid cold_boot w. Some (- 2, bump w)),
      pmp_region_count = Some (\<lambda>hartid w. Some (3, bump w)),
      pmp_region_info = Some (\<lambda>hartid index prot addr log2size w.
        Some (- 3, bump (w\<lparr>mem := (mem w)(prot := 7, addr := 0x80000000, log2size := 12)\<rparr>))),
      console_putc = Some (\<lambda>ch w. Some (bump w)),
      console_getc = Some (\<lambda>w. Some (0x41, bump w)),
      console_init = Some (\<lambda>w. Some (- 4, bump w)),
      irqchip_init = Some (\<lambda>hartid cold_boot w. Some (- 5, bump w)),
      ipi_inject = Some (\<lambda>target_hart source_hart w. Some (bump w)),
      ipi_sync = Some (\<lambda>target_hart source_hart w. None),
      ipi_clear = Some (\<lambda>target_hart w. Some (bump w)),
      ipi_init = Some (\<lambda>hartid cold_boot w. Some (- 6, bump w)),
      timer_value = Some (\<lambda>w. Some (0x123456789, bump w)),
      timer_event_start = Some (\<lambda>target_hart next_event w. Some (bump w)),
      timer_event_stop = Some (\<lambda>target_hart w. Some (bump w)),
      timer_init = Some (\<lambda>hartid cold_boot w. Some (- 7, bump w)),
      system_reboot = Some (\<lambda>type w. Some (- 8, bump w)),
      system_shutdown = Some (\<lambda>type w. Some (- 9, bump w))\<rparr>"

text \<open>
  \<open>zero_world\<close> has all memory zero; in \<open>stale_world\<close> every location holds 7, as
  uninitialised locals of a caller might.
\<close>

definition zero_world :: "nat world" where
  "zero_world = \<lparr>mem = (\<lambda>a. 0), dev = 0\<rparr>"

definition stale_world :: "nat world" where
  "stale_world = \<lparr>mem = (\<lambda>a. 7), dev = 0\<rparr>"

section \<open>The disabled-hart test\<close>

text \<open>
  Bit \<open>i\<close> of an \<^verbatim>\<open>int\<close> power of two, once the \<^verbatim>\<open>int\<close> has been converted
  to \<^verbatim>\<open>u64\<close>. Below the sign bit the conversion keeps the single bit. At the sign
  bit it also sets every bit from 32 to 63.
\<close>

lemma bit_scast_exp:
  "k < 32 \<Longrightarrow>
     bit (scast (2 ^ k :: c_int) :: u64) i \<longleftrightarrow> (i = k \<or> (k = 31 \<and> 32 \<le> i)) \<and> i < 64"
  by (auto simp add: bit_word_scast_iff bit_exp_iff)

lemma and_ne0_iff: "(a AND b \<noteq> 0) \<longleftrightarrow> (\<exists>i. bit a i \<and> bit b i)" for a b :: "'a::len word"
  by (auto simp add: bit_eq_iff bit_and_iff dest: bit_imp_le_length)

lemma hart_mask_test_exp:
  "k < 32 \<Longrightarrow>
     hart_mask_test m (2 ^ k) \<longleftrightarrow> (\<exists>i<64. bit m i \<and> (i = k \<or> (k = 31 \<and> 32 \<le> i)))"
  unfolding hart_mask_test_def and_u64_int_def and_ne0_iff
  by (auto simp add: bit_scast_exp)

lemma hart_disabled_defined:
  "unat hartid < 32 \<Longrightarrow>
     sbi_platform_hart_disabled (Some p) hartid =
       Inr (\<exists>i<64. bit (disabled_hart_mask p) i \<and>
              (i = unat hartid \<or> (unat hartid = 31 \<and> 32 \<le> i)))"
  by (simp add: sbi_platform_hart_disabled_def shl_int_def hart_mask_test_exp)

text \<open>For a hart number below 31 the accessor reads exactly that hart's bit.\<close>

lemma hart_disabled_low:
  "unat hartid < 31 \<Longrightarrow>
     sbi_platform_hart_disabled (Some p) hartid = Inr (bit (disabled_hart_mask p) (unat hartid))"
  by (auto simp add: hart_disabled_defined)

lemma hart_disabled_undefined:
  "32 \<le> unat hartid \<Longrightarrow> sbi_platform_hart_disabled (Some p) hartid = Inl ShiftOutOfRange"
  by (simp add: sbi_platform_hart_disabled_def shl_int_def)

text \<open>
  No \<^verbatim>\<open>int\<close> value, converted to \<^verbatim>\<open>u64\<close>, selects one bit from 32 to 63: bits 32
  to 63 of the converted value are all copies of bit 31. So whatever a shift by 32 or
  more leaves in the \<^verbatim>\<open>int\<close>, the test that follows differs from the test of bit
  \<open>k\<close> on some mask.
\<close>

lemma no_int_selects_high_bit:
  assumes k: "32 \<le> k" "k < 64"
  shows "\<exists>m. hart_mask_test m v \<noteq> bit m k"
proof (cases "bit v 31")
  case True
  have "\<exists>i. bit (2 ^ 31 :: u64) i \<and> bit (scast v :: u64) i"
    using True by (intro exI [of _ 31]) (simp add: bit_word_scast_iff bit_exp_iff)
  then have "hart_mask_test (2 ^ 31) v"
    unfolding hart_mask_test_def and_u64_int_def and_ne0_iff .
  moreover have "\<not> bit (2 ^ 31 :: u64) k"
    unfolding bit_exp_iff using k by simp
  ultimately show ?thesis by blast
next
  case False
  have "\<not> (\<exists>i. bit (2 ^ k :: u64) i \<and> bit (scast v :: u64) i)"
    using False k by (auto simp add: bit_word_scast_iff bit_exp_iff dest: bit_imp_le_length)
  then have "\<not> hart_mask_test (2 ^ k) v"
    unfolding hart_mask_test_def and_u64_int_def and_ne0_iff .
  moreover have "bit (2 ^ k :: u64) k"
    using k by (simp add: bit_exp_iff)
  ultimately show ?thesis by blast
qed

lemma hart_disabled_shifted:
  "unat hartid < 32 \<Longrightarrow>
     sbi_platform_hart_disabled (Some p) hartid =
       Inr (hart_mask_test (disabled_hart_mask p) (push_bit (unat hartid) 1))"
  by (simp add: sbi_platform_hart_disabled_def shl_int_def)

text \<open>
  Hence no hart number at all makes the accessor read one bit from 32 to 63 of the mask:
  for each such bit and each hart number there is a mask on which the accessor's result
  is not that bit.
\<close>

lemma no_hartid_reads_high_bit:
  assumes k: "32 \<le> k" "k < 64"
  shows "\<exists>m. sbi_platform_hart_disabled (Some (p\<lparr>disabled_hart_mask := m\<rparr>)) h \<noteq> Inr (bit m k)"
proof (cases "unat h < 32")
  case True
  from no_int_selects_high_bit [OF k, of "push_bit (unat h) 1"]
  obtain m where "hart_mask_test m (push_bit (unat h) 1) \<noteq> bit m k" ..
  then have "sbi_platform_hart_disabled (Some (p\<lparr>disabled_hart_mask := m\<rparr>)) h \<noteq> Inr (bit m k)"
    using hart_disabled_shifted [OF True, of "p\<lparr>disabled_hart_mask := m\<rparr>"] by simp
  then show ?thesis ..
next
  case False
  then have "sbi_platform_hart_disabled (Some (p\<lparr>disabled_hart_mask := 0\<rparr>)) h = Inl ShiftOutOfRange"
    by (simp add: hart_disabled_undefined)
  then have "sbi_platform_hart_disabled (Some (p\<lparr>disabled_hart_mask := 0\<rparr>)) h \<noteq> Inr (bit (0 :: u64) k)"
    by simp
  then show ?thesis ..
qed

text \<open>
  The scenario of four harts with hart 2 disabled (\<open>disabled_hart_mask = 0b0100\<close>):
  hart 2 is reported disabled, harts 0, 1 and 3 are not.
\<close>

lemma hart_disabled_four_harts:
  "sbi_platform_hart_disabled
     (Some (bare_platform\<lparr>hart_count := 4, disabled_hart_mask := 4\<rparr>)) 2 = Inr True"
  "sbi_platform_hart_disabled
     (Some (bare_platform\<lparr>hart_count := 4, disabled_hart_mask := 4\<rparr>)) 0 = Inr False"
  "sbi_platform_hart_disabled
     (Some (bare_platform\<lparr>hart_count := 4, disabled_hart_mask := 4\<rparr>)) 1 = Inr False"
  "sbi_platform_hart_disabled
     (Some (bare_platform\<lparr>hart_count := 4, disabled_hart_mask := 4\<rparr>)) 3 = Inr False"
  by (simp_all add: sbi_platform_hart_disabled_def shl_int_def hart_mask_test_def and_u64_int_def)

text \<open>
  Claim C1. For a descriptor with \<open>hart_count \<le> 64\<close> and a hart number below
  \<open>hart_count\<close>, \<^verbatim>\<open>sbi_platform_hart_disabled\<close> is to return true exactly when that
  hart's bit of \<open>disabled_hart_mask\<close> is set. The code does so for hart numbers up to
  30 (\<open>hart_disabled_low\<close>, \<open>hart_disabled_four_harts\<close>), and not at 31. On a board
  with 64 harts of which only hart 32 is disabled, hart 31 has its bit clear and is
  within \<open>hart_count\<close>, and the accessor reports it disabled: the \<^verbatim>\<open>int\<close> constant
  in \<^verbatim>\<open>1 << hartid\<close> makes the shifted value \<^verbatim>\<open>INT_MIN\<close>, whose conversion to
  the mask's 64-bit type has bits 31 to 63 set.
\<close>

theorem hart_disabled_hart_31_divergence:
  "unat (31 :: u32) < unat (hart_count (bare_platform\<lparr>hart_count := 64, disabled_hart_mask := 0x100000000\<rparr>))
   \<and> unat (hart_count (bare_platform\<lparr>hart_count := 64, disabled_hart_mask := 0x100000000\<rparr>)) \<le> 64
   \<and> \<not> bit (disabled_hart_mask (bare_platform\<lparr>hart_count := 64, disabled_hart_mask := 0x100000000\<rparr>)) 31
   \<and> sbi_platform_hart_disabled
        (Some (bare_platform\<lparr>hart_count := 64, disabled_hart_mask := 0x100000000\<rparr>)) 31 = Inr True"
  by (simp add: sbi_platform_hart_disabled_def shl_int_def hart_mask_test_def and_u64_int_def)

text \<open>
  Claim C8. The mask test of \<^verbatim>\<open>sbi_platform_hart_disabled\<close> is
  \<^verbatim>\<open>disabled_hart_mask & (1 << hartid)\<close> with a 32-bit signed 1. For hart 31 the
  shifted value is sign-extended when widened to the mask's 64 bits, so the accessor
  returns true exactly when at least one of bits 31 to 63 of the mask is set. For a
  hart number from 32 to 63 the shift count is not below the width of the shifted
  operand, so the shift has no defined value; no value it could leave in the
  \<^verbatim>\<open>int\<close> makes the test read that hart's bit of the mask; and no hart number
  passed to the accessor makes it read that bit.
\<close>

theorem hart_disabled_int_shift:
  "sbi_platform_hart_disabled (Some p) 31 = Inr (\<exists>i\<in>{31..<64}. bit (disabled_hart_mask p) i)
   \<and> (32 \<le> unat hartid \<and> unat hartid < 64 \<longrightarrow>
        sbi_platform_hart_disabled (Some p) hartid = Inl ShiftOutOfRange
        \<and> (\<forall>v. \<exists>m. hart_mask_test m v \<noteq> bit m (unat hartid))
        \<and> (\<forall>h. \<exists>m. sbi_platform_hart_disabled (Some (p\<lparr>disabled_hart_mask := m\<rparr>)) h
                    \<noteq> Inr (bit m (unat hartid))))"
proof -
  have bits: "(\<exists>i<64. bit m i \<and> (i = 31 \<or> 32 \<le> i)) \<longleftrightarrow> (\<exists>i\<in>{31..<64}. bit m i)" for m :: u64
  proof
    assume "\<exists>i<64. bit m i \<and> (i = 31 \<or> 32 \<le> i)"
    then obtain i where "i < 64" "bit m i" "31 \<le> i" by auto
    then show "\<exists>i\<in>{31..<64}. bit m i" by (intro bexI [of _ i]) simp_all
  next
    assume "\<exists>i\<in>{31..<64}. bit m i"
    then obtain i where "31 \<le> i" "i < 64" "bit m i" by auto
    then have "i < 64 \<and> bit m i \<and> (i = 31 \<or> 32 \<le> i)" by auto
    then show "\<exists>i<64. bit m i \<and> (i = 31 \<or> 32 \<le> i)" by blast
  qed
  have at_31: "sbi_platform_hart_disabled (Some p) 31 =
      Inr (\<exists>i\<in>{31..<64}. bit (disabled_hart_mask p) i)"
    using hart_disabled_defined [of 31 p] by (simp add: bits)
  have above: "sbi_platform_hart_disabled (Some p) hartid = Inl ShiftOutOfRange
      \<and> (\<forall>v. \<exists>m. hart_mask_test m v \<noteq> bit m (unat hartid))
      \<and> (\<forall>h. \<exists>m. sbi_platform_hart_disabled (Some (p\<lparr>disabled_hart_mask := m\<rparr>)) h
                  \<noteq> Inr (bit m (unat hartid)))"
    if "32 \<le> unat hartid" "unat hartid < 64"
    using that hart_disabled_undefined [of hartid p] no_int_selects_high_bit [of "unat hartid"]
      no_hartid_reads_high_bit [of "unat hartid" p]
    by blast
  from at_31 above show ?thesis by blast
qed

theorem hart_disabled_int_shift_witness:
  "sbi_platform_hart_disabled (Some (bare_platform\<lparr>disabled_hart_mask := 0x8000000000000000\<rparr>)) 31
     = Inr True
   \<and> sbi_platform_hart_disabled (Some (bare_platform\<lparr>disabled_hart_mask := 0x8000000000000000\<rparr>)) 63
     = Inl ShiftOutOfRange
   \<and> (\<forall>v. \<exists>m. hart_mask_test m v \<noteq> bit m 63)
   \<and> (\<forall>h. \<exists>m. sbi_platform_hart_disabled (Some (bare_platform\<lparr>disabled_hart_mask := m\<rparr>)) h
               \<noteq> Inr (bit m 63))"
proof -
  have range: "32 \<le> unat (63 :: u32) \<and> unat (63 :: u32) < 64" by simp
  have high: "\<exists>i\<in>{31..<64}. bit (disabled_hart_mask (bare_platform\<lparr>disabled_hart_mask := 0x8000000000000000\<rparr>)) i"
    by (intro bexI [of _ 63]) simp_all
  show ?thesis
    using hart_disabled_int_shift [of "bare_platform\<lparr>disabled_hart_mask := 0x8000000000000000\<rparr>" 63]
      range high
    by simp
qed

section \<open>Dispatch and defaults\<close>

lemmas dispatch_defs =
  sbi_platform_early_init_def sbi_platform_final_init_def sbi_platform_pmp_region_count_def
  sbi_platform_pmp_region_info_def sbi_platform_console_putc_def sbi_platform_console_getc_def
  sbi_platform_console_init_def sbi_platform_irqchip_init_def sbi_platform_ipi_inject_def
  sbi_platform_ipi_sync_def sbi_platform_ipi_clear_def sbi_platform_ipi_init_def
  sbi_platform_timer_value_def sbi_platform_timer_event_start_def
  sbi_platform_timer_event_stop_def sbi_platform_timer_init_def
  sbi_platform_system_reboot_def sbi_platform_system_shutdown_def

text \<open>
  Claim C4. Called with a null descriptor, each of the twenty inline accessors returns
  its default without reading the descriptor: a null name, false for the disabled-hart
  test, 0 for the hart count, the stack size, the console character, the timer value and
  the region count, 0 (success) for every operation that returns a result, and no effect
  for every \<^verbatim>\<open>void\<close> operation. In each case the world after the call is the world
  before it. (The six feature-test macros are not among these accessors; they are the
  subject of claim C3.)
\<close>

theorem null_descriptor_defaults:
  "sbi_platform_name None = None
   \<and> sbi_platform_hart_disabled None hartid = Inr False
   \<and> sbi_platform_hart_count None = 0
   \<and> sbi_platform_hart_stack_size None = 0
   \<and> sbi_platform_early_init None hartid cold_boot w = Some (0, w)
   \<and> sbi_platform_final_init None hartid cold_boot w = Some (0, w)
   \<and> sbi_platform_pmp_region_count None hartid w = Some (0, w)
   \<and> sbi_platform_pmp_region_info None hartid index prot addr log2size w = Some (0, w)
   \<and> sbi_platform_console_putc None ch w = Some w
   \<and> sbi_platform_console_getc None w = Some (0, w)
   \<and> sbi_platform_console_init None w = Some (0, w)
   \<and> sbi_platform_irqchip_init None hartid cold_boot w = Some (0, w)
   \<and> sbi_platform_ipi_inject None target_hart source_hart w = Some w
   \<and> sbi_platform_ipi_sync None target_hart source_hart w = Some w
   \<and> sbi_platform_ipi_clear None target_hart w = Some w
   \<and> sbi_platform_ipi_init None hartid cold_boot w = Some (0, w)
   \<and> sbi_platform_timer_value None w = Some (0, w)
   \<and> sbi_platform_timer_event_start None target_hart next_event w = Some w
   \<and> sbi_platform_timer_event_stop None target_hart w = Some w
   \<and> sbi_platform_timer_init None hartid cold_boot w = Some (0, w)
   \<and> sbi_platform_system_reboot None type w = Some (0, w)
   \<and> sbi_platform_system_shutdown None type w = Some (0, w)"
  by (simp add: dispatch_defs sbi_platform_name_def sbi_platform_hart_disabled_def
      sbi_platform_hart_count_def sbi_platform_hart_stack_size_def)

text \<open>
  Claim C5. With a descriptor present and the entry point of an operation null, the
  accessor of that operation returns the neutral default (0 for a result, the zero
  character, a zero timer value, a zero region count; nothing for a \<^verbatim>\<open>void\<close>
  operation) at once, and the world is unchanged. The statement holds whatever the other
  entry points of the descriptor are, so none of them is called: in the second instance
  below every other entry point would add one to the device state, and the device state
  stays 0.
\<close>

theorem absent_entry_point_defaults:
  "(early_init p = None \<longrightarrow> sbi_platform_early_init (Some p) hartid cold_boot w = Some (0, w))
   \<and> (final_init p = None \<longrightarrow> sbi_platform_final_init (Some p) hartid cold_boot w = Some (0, w))
   \<and> (pmp_region_count p = None \<longrightarrow> sbi_platform_pmp_region_count (Some p) hartid w = Some (0, w))
   \<and> (pmp_region_info p = None \<longrightarrow>
        sbi_platform_pmp_region_info (Some p) hartid index prot addr log2size w = Some (0, w))
   \<and> (console_putc p = None \<longrightarrow> sbi_platform_console_putc (Some p) ch w = Some w)
   \<and> (console_getc p = None \<longrightarrow> sbi_platform_console_getc (Some p) w = Some (0, w))
   \<and> (console_init p = None \<longrightarrow> sbi_platform_console_init (Some p) w = Some (0, w))
   \<and> (irqchip_init p = None \<longrightarrow> sbi_platform_irqchip_init (Some p) hartid cold_boot w = Some (0, w))
   \<and> (ipi_inject p = None \<longrightarrow> sbi_platform_ipi_inject (Some p) target_hart source_hart w = Some w)
   \<and> (ipi_sync p = None \<longrightarrow> sbi_platform_ipi_sync (Some p) target_hart source_hart w = Some w)
   \<and> (ipi_clear p = None \<longrightarrow> sbi_platform_ipi_clear (Some p) target_hart w = Some w)
   \<and> (ipi_init p = None \<longrightarrow> sbi_platform_ipi_init (Some p) hartid cold_boot w = Some (0, w))
   \<and> (timer_value p = None \<longrightarrow> sbi_platform_timer_value (Some p) w = Some (0, w))
   \<and> (timer_event_start p = None \<longrightarrow>
        sbi_platform_timer_event_start (Some p) target_hart next_event w = Some w)
   \<and> (timer_event_stop p = None \<longrightarrow> sbi_platform_timer_event_stop (Some p) target_hart w = Some w)
   \<and> (timer_init p = None \<longrightarrow> sbi_platform_timer_init (Some p) hartid cold_boot w = Some (0, w))
   \<and> (system_reboot p = None \<longrightarrow> sbi_platform_system_reboot (Some p) type w = Some (0, w))
   \<and> (system_shutdown p = None \<longrightarrow> sbi_platform_system_shutdown (Some p) type w = Some (0, w))"
  by (simp add: dispatch_defs)

theorem absent_entry_point_defaults_witness:
  "sbi_platform_early_init (Some bare_platform) 0 True stale_world = Some (0, stale_world)
   \<and> sbi_platform_final_init (Some bare_platform) 0 True stale_world = Some (0, stale_world)
   \<and> sbi_platform_pmp_region_count (Some bare_platform) 0 stale_world = Some (0, stale_world)
   \<and> sbi_platform_pmp_region_info (Some bare_platform) 0 0 8 16 24 stale_world = Some (0, stale_world)
   \<and> sbi_platform_console_putc (Some bare_platform) 0x41 stale_world = Some stale_world
   \<and> sbi_platform_console_getc (Some bare_platform) stale_world = Some (0, stale_world)
   \<and> sbi_platform_console_init (Some bare_platform) stale_world = Some (0, stale_world)
   \<and> sbi_platform_irqchip_init (Some bare_platform) 0 True stale_world = Some (0, stale_world)
   \<and> sbi_platform_ipi_inject (Some bare_platform) 1 0 stale_world = Some stale_world
   \<and> sbi_platform_ipi_sync (Some bare_platform) 1 0 stale_world = Some stale_world
   \<and> sbi_platform_ipi_clear (Some bare_platform) 1 stale_world = Some stale_world
   \<and> sbi_platform_ipi_init (Some bare_platform) 0 True stale_world = Some (0, stale_world)
   \<and> sbi_platform_timer_value (Some bare_platform) stale_world = Some (0, stale_world)
   \<and> sbi_platform_timer_event_start (Some bare_platform) 1 1000 stale_world = Some stale_world
   \<and> sbi_platform_timer_event_stop (Some bare_platform) 1 stale_world = Some stale_world
   \<and> sbi_platform_timer_init (Some bare_platform) 0 True stale_world = Some (0, stale_world)
   \<and> sbi_platform_system_reboot (Some bare_platform) 0 stale_world = Some (0, stale_world)
   \<and> sbi_platform_system_shutdown (Some bare_platform) 0 stale_world = Some (0, stale_world)
   \<and> sbi_platform_ipi_sync (Some (counting_platform\<lparr>ipi_sync := None, system_reboot := None\<rparr>))
         1 0 zero_world = Some zero_world
   \<and> sbi_platform_system_reboot (Some (counting_platform\<lparr>ipi_sync := None, system_reboot := None\<rparr>))
         0 zero_world = Some (0, zero_world)"
  using absent_entry_point_defaults [where p = bare_platform and w = stale_world
      and hartid = 0 and cold_boot = True and index = 0 and prot = 8 and addr = 16
      and log2size = 24 and ch = "0x41" and target_hart = 1 and source_hart = 0
      and next_event = 1000 and type = 0]
    absent_entry_point_defaults [where p = "counting_platform\<lparr>ipi_sync := None, system_reboot := None\<rparr>"
      and w = zero_world and target_hart = 1 and source_hart = 0 and type = 0]
  by (simp add: bare_platform_def)

text \<open>
  Claim C7. With a descriptor present and the entry point of a result-returning
  operation populated, the accessor's outcome is the entry point's outcome on the
  accessor's own arguments: the same return value, failure codes included, the same
  world after, and no return when the entry point does not return.
\<close>

theorem populated_entry_point_passthrough:
  "(early_init p = Some on_early_init \<longrightarrow>
      sbi_platform_early_init (Some p) hartid cold_boot w = on_early_init hartid cold_boot w)
   \<and> (final_init p = Some on_final_init \<longrightarrow>
      sbi_platform_final_init (Some p) hartid cold_boot w = on_final_init hartid cold_boot w)
   \<and> (console_init p = Some on_console_init \<longrightarrow>
      sbi_platform_console_init (Some p) w = on_console_init w)
   \<and> (irqchip_init p = Some on_irqchip_init \<longrightarrow>
      sbi_platform_irqchip_init (Some p) hartid cold_boot w = on_irqchip_init hartid cold_boot w)
   \<and> (ipi_init p = Some on_ipi_init \<longrightarrow>
      sbi_platform_ipi_init (Some p) hartid cold_boot w = on_ipi_init hartid cold_boot w)
   \<and> (timer_init p = Some on_timer_init \<longrightarrow>
      sbi_platform_timer_init (Some p) hartid cold_boot w = on_timer_init hartid cold_boot w)
   \<and> (pmp_region_info p = Some on_pmp_region_info \<longrightarrow>
      sbi_platform_pmp_region_info (Some p) hartid index prot addr log2size w =
        on_pmp_region_info hartid index prot addr log2size w)
   \<and> (system_reboot p = Some on_system_reboot \<longrightarrow>
      sbi_platform_system_reboot (Some p) type w = on_system_reboot type w)
   \<and> (system_shutdown p = Some on_system_shutdown \<longrightarrow>
      sbi_platform_system_shutdown (Some p) type w = on_system_shutdown type w)"
  by (simp add: dispatch_defs)

lemma counting_platform_entries:
  "early_init counting_platform = Some (\<lambda>hartid cold_boot w. Some (- 1, bump w))"
  "final_init counting_platform = Some (\<lambda>hartid cold_boot w. Some (- 2, bump w))"
  "console_init counting_platform = Some (\<lambda>w. Some (- 4, bump w))"
  "irqchip_init counting_platform = Some (\<lambda>hartid cold_boot w. Some (- 5, bump w))"
  "ipi_init counting_platform = Some (\<lambda>hartid cold_boot w. Some (- 6, bump w))"
  "timer_init counting_platform = Some (\<lambda>hartid cold_boot w. Some (- 7, bump w))"
  "pmp_region_info counting_platform = Some (\<lambda>hartid index prot addr log2size w.
      Some (- 3, bump (w\<lparr>mem := (mem w)(prot := 7, addr := 0x80000000, log2size := 12)\<rparr>)))"
  "system_reboot counting_platform = Some (\<lambda>type w. Some (- 8, bump w))"
  "system_shutdown counting_platform = Some (\<lambda>type w. Some (- 9, bump w))"
  by (simp_all add: counting_platform_def)

theorem populated_entry_point_passthrough_witness:
  "sbi_platform_early_init (Some counting_platform) 2 True zero_world = Some (- 1, bump zero_world)
   \<and> sbi_platform_final_init (Some counting_platform) 2 True zero_world = Some (- 2, bump zero_world)
   \<and> sbi_platform_console_init (Some counting_platform) zero_world = Some (- 4, bump zero_world)
   \<and> sbi_platform_irqchip_init (Some counting_platform) 2 True zero_world = Some (- 5, bump zero_world)
   \<and> sbi_platform_ipi_init (Some counting_platform) 2 True zero_world = Some (- 6, bump zero_world)
   \<and> sbi_platform_timer_init (Some counting_platform) 2 True zero_world = Some (- 7, bump zero_world)
   \<and> sbi_platform_pmp_region_info (Some counting_platform) 2 0 8 16 24 zero_world =
       Some (- 3, bump (zero_world\<lparr>mem := (mem zero_world)(8 := 7, 16 := 0x80000000, 24 := 12)\<rparr>))
   \<and> sbi_platform_system_reboot (Some counting_platform) 1 zero_world = Some (- 8, bump zero_world)
   \<and> sbi_platform_system_shutdown (Some counting_platform) 1 zero_world = Some (- 9, bump zero_world)"
proof -
  note pass = populated_entry_point_passthrough [where p = counting_platform and w = zero_world
      and hartid = 2 and cold_boot = True and index = 0 and prot = 8 and addr = 16
      and log2size = 24 and type = 1
      and on_early_init = "\<lambda>hartid cold_boot w. Some (- 1, bump w)"
      and on_final_init = "\<lambda>hartid cold_boot w. Some (- 2, bump w)"
      and on_console_init = "\<lambda>w. Some (- 4, bump w)"
      and on_irqchip_init = "\<lambda>hartid cold_boot w. Some (- 5, bump w)"
      and on_ipi_init = "\<lambda>hartid cold_boot w. Some (- 6, bump w)"
      and on_timer_init = "\<lambda>hartid cold_boot w. Some (- 7, bump w)"
      and on_pmp_region_info = "\<lambda>hartid index prot addr log2size w.
        Some (- 3, bump (w\<lparr>mem := (mem w)(prot := 7, addr := 0x80000000, log2size := 12)\<rparr>))"
      and on_system_reboot = "\<lambda>type w. Some (- 8, bump w)"
      and on_system_shutdown = "\<lambda>type w. Some (- 9, bump w)"]
  from pass show ?thesis
    unfolding counting_platform_entries by simp
qed

section \<open>Region details when the board supplies none\<close>

text \<open>
  Claim C9. When the descriptor is null or its \<^verbatim>\<open>pmp_region_info\<close> entry point is
  null, \<^verbatim>\<open>sbi_platform_pmp_region_info\<close> returns 0 and writes nothing: the whole
  world, and so the three locations \<^verbatim>\<open>prot\<close>, \<^verbatim>\<open>addr\<close> and \<^verbatim>\<open>log2size\<close> point
  to, is as it was before the call.
\<close>

theorem pmp_region_info_default_frame:
  "plat = None \<or> (\<exists>p. plat = Some p \<and> pmp_region_info p = None) \<Longrightarrow>
     sbi_platform_pmp_region_info plat hartid index prot addr log2size w = Some (0, w)"
  by (auto simp add: sbi_platform_pmp_region_info_def)

theorem pmp_region_info_default_frame_witness:
  "sbi_platform_pmp_region_info None 0 0 8 16 24 stale_world = Some (0, stale_world)
   \<and> sbi_platform_pmp_region_info (Some bare_platform) 0 0 8 16 24 stale_world = Some (0, stale_world)
   \<and> mem stale_world 8 = 7 \<and> mem stale_world 16 = 7 \<and> mem stale_world 24 = 7"
proof -
  have "pmp_region_info bare_platform = None"
    by (simp add: bare_platform_def)
  then show ?thesis
    using pmp_region_info_default_frame [of None 0 0 8 16 24 stale_world]
      pmp_region_info_default_frame [of "Some bare_platform" 0 0 8 16 24 stale_world]
    by (simp add: stale_world_def)
qed

text \<open>
  Claim C2 says that with the entry point null the three outputs are zero after the
  call. They are not set by the accessor: a caller whose three locations held 7 before
  the call finds 7 in each of them after it.
\<close>

theorem pmp_region_info_absent_outputs_not_zeroed:
  "pmp_region_info bare_platform = None
   \<and> sbi_platform_pmp_region_info (Some bare_platform) 0 0 8 16 24 stale_world = Some (0, stale_world)
   \<and> mem stale_world 8 \<noteq> 0 \<and> mem stale_world 16 \<noteq> 0 \<and> mem stale_world 24 \<noteq> 0"
  by (simp add: sbi_platform_pmp_region_info_def bare_platform_def stale_world_def)

text \<open>
  Claim C2, amended. For every descriptor whose \<^verbatim>\<open>pmp_region_info\<close> entry point is
  null, and every hart number and index, the accessor returns 0 (success) and each of
  the three outputs holds after the call what it held before it; so the outputs are zero
  after the call when the caller had set them to zero.
\<close>

theorem pmp_region_info_absent_keeps_outputs:
  "pmp_region_info p = None \<Longrightarrow>
     \<exists>w'. sbi_platform_pmp_region_info (Some p) hartid index prot addr log2size w = Some (0, w')
        \<and> mem w' prot = mem w prot \<and> mem w' addr = mem w addr \<and> mem w' log2size = mem w log2size"
  by (simp add: sbi_platform_pmp_region_info_def)

theorem pmp_region_info_absent_keeps_outputs_witness:
  "\<exists>w'. sbi_platform_pmp_region_info (Some bare_platform) 0 0 8 16 24 zero_world = Some (0, w')
        \<and> mem w' 8 = 0 \<and> mem w' 16 = 0 \<and> mem w' 24 = 0"
proof -
  have "pmp_region_info bare_platform = None"
    by (simp add: bare_platform_def)
  from pmp_region_info_absent_keeps_outputs [OF this, of 0 0 8 16 24 zero_world]
  show ?thesis by (simp add: zero_world_def)
qed

section \<open>Feature queries\<close>

lemma flag_values:
  "scast SBI_PLATFORM_HAS_MMIO_TIMER_VALUE = (1 :: u64)"
  "scast SBI_PLATFORM_HAS_HART_HOTPLUG = (2 :: u64)"
  "scast SBI_PLATFORM_HAS_PMP = (4 :: u64)"
  "scast SBI_PLATFORM_HAS_SCOUNTEREN = (8 :: u64)"
  "scast SBI_PLATFORM_HAS_MCOUNTEREN = (16 :: u64)"
  "scast SBI_PLATFORM_HAS_MFAULTS_DELEGATION = (32 :: u64)"
  by (simp_all add: SBI_PLATFORM_HAS_MMIO_TIMER_VALUE_def SBI_PLATFORM_HAS_HART_HOTPLUG_def
      SBI_PLATFORM_HAS_PMP_def SBI_PLATFORM_HAS_SCOUNTEREN_def SBI_PLATFORM_HAS_MCOUNTEREN_def
      SBI_PLATFORM_HAS_MFAULTS_DELEGATION_def)

lemma and_exp_if: "k < 64 \<Longrightarrow> (x :: u64) AND 2 ^ k = (if bit x k then 2 ^ k else 0)"
  by (rule bit_word_eqI) (auto simp add: bit_and_iff bit_exp_iff)

lemma feature_query_values:
  "sbi_platform_has_mmio_timer_value (Some p) = Inr (features p AND 1)"
  "sbi_platform_has_hart_hotplug (Some p) = Inr (features p AND 2)"
  "sbi_platform_has_pmp (Some p) = Inr (features p AND 4)"
  "sbi_platform_has_scounteren (Some p) = Inr (features p AND 8)"
  "sbi_platform_has_mcounteren (Some p) = Inr (features p AND 16)"
  "sbi_platform_has_mfaults_delegation (Some p) = Inr (features p AND 32)"
  by (simp_all add: sbi_platform_has_mmio_timer_value_def sbi_platform_has_hart_hotplug_def
      sbi_platform_has_pmp_def sbi_platform_has_scounteren_def sbi_platform_has_mcounteren_def
      sbi_platform_has_mfaults_delegation_def and_u64_int_def flag_values)

lemma and_flag_if:
  "(x :: u64) AND 1 = (if bit x 0 then 1 else 0)"
  "(x :: u64) AND 2 = (if bit x 1 then 2 else 0)"
  "(x :: u64) AND 4 = (if bit x 2 then 4 else 0)"
  "(x :: u64) AND 8 = (if bit x 3 then 8 else 0)"
  "(x :: u64) AND 16 = (if bit x 4 then 16 else 0)"
  "(x :: u64) AND 32 = (if bit x 5 then 32 else 0)"
  using and_exp_if [of 0 x] and_exp_if [of 1 x] and_exp_if [of 2 x] and_exp_if [of 3 x]
    and_exp_if [of 4 x] and_exp_if [of 5 x]
  by simp_all

lemma feature_query_bits:
  "sbi_platform_has_mmio_timer_value (Some p) = Inr (if bit (features p) 0 then 1 else 0)"
  "sbi_platform_has_hart_hotplug (Some p) = Inr (if bit (features p) 1 then 2 else 0)"
  "sbi_platform_has_pmp (Some p) = Inr (if bit (features p) 2 then 4 else 0)"
  "sbi_platform_has_scounteren (Some p) = Inr (if bit (features p) 3 then 8 else 0)"
  "sbi_platform_has_mcounteren (Some p) = Inr (if bit (features p) 4 then 16 else 0)"
  "sbi_platform_has_mfaults_delegation (Some p) = Inr (if bit (features p) 5 then 32 else 0)"
  by (simp_all only: feature_query_values and_flag_if)

lemma combo_bits:
  fixes b0 b1 b2 b3 b4 b5 :: bool
  defines "x \<equiv> (if b0 then 1 else 0) OR (if b1 then 2 else 0) OR (if b2 then 4 else 0) OR
     (if b3 then 8 else 0) OR (if b4 then 16 else 0) OR (if b5 then (32 :: u64) else 0)"
  shows "bit x 0 = b0" "bit x 1 = b1" "bit x 2 = b2" "bit x 3 = b3" "bit x 4 = b4" "bit x 5 = b5"
  unfolding x_def
  by (cases b0; cases b1; cases b2; cases b3; cases b4; cases b5; simp)+

text \<open>
  Claim C3 says that a feature query on a null descriptor reads nothing and answers
  "not supported". The macros have no null test: the query reads \<^verbatim>\<open>features\<close>
  through the null pointer.
\<close>

theorem feature_query_null_descriptor_faults:
  "sbi_platform_has_mmio_timer_value (None :: nat sbi_platform option) = Inl NullDereference
   \<and> sbi_platform_has_mmio_timer_value (None :: nat sbi_platform option) \<noteq> Inr 0"
  by (simp add: sbi_platform_has_mmio_timer_value_def)

text \<open>
  Claim C3, amended. For each of the six feature bits, the query on a descriptor that is
  present cannot fail and has no effect: its value is \<^verbatim>\<open>features\<close> masked with
  the bit, zero ("not supported") when the bit is clear. On a null descriptor each of the
  six queries reads through the null pointer.
\<close>

theorem feature_query_needs_descriptor:
  "sbi_platform_has_mmio_timer_value (Some p) = Inr (features p AND 1)
   \<and> sbi_platform_has_hart_hotplug (Some p) = Inr (features p AND 2)
   \<and> sbi_platform_has_pmp (Some p) = Inr (features p AND 4)
   \<and> sbi_platform_has_scounteren (Some p) = Inr (features p AND 8)
   \<and> sbi_platform_has_mcounteren (Some p) = Inr (features p AND 16)
   \<and> sbi_platform_has_mfaults_delegation (Some p) = Inr (features p AND 32)
   \<and> sbi_platform_has_mmio_timer_value (None :: 'd sbi_platform option) = Inl NullDereference
   \<and> sbi_platform_has_hart_hotplug (None :: 'd sbi_platform option) = Inl NullDereference
   \<and> sbi_platform_has_pmp (None :: 'd sbi_platform option) = Inl NullDereference
   \<and> sbi_platform_has_scounteren (None :: 'd sbi_platform option) = Inl NullDereference
   \<and> sbi_platform_has_mcounteren (None :: 'd sbi_platform option) = Inl NullDereference
   \<and> sbi_platform_has_mfaults_delegation (None :: 'd sbi_platform option) = Inl NullDereference"
  by (simp add: feature_query_values) (simp add: sbi_platform_has_mmio_timer_value_def sbi_platform_has_hart_hotplug_def
      sbi_platform_has_pmp_def sbi_platform_has_scounteren_def sbi_platform_has_mcounteren_def
      sbi_platform_has_mfaults_delegation_def)

text \<open>
  Claim C6. For every descriptor and each of the six feature bits, the query is true
  (not zero) exactly when that bit of \<^verbatim>\<open>features\<close> is set. The answer depends on
  \<^verbatim>\<open>features\<close> alone: two descriptors with equal \<^verbatim>\<open>features\<close> answer alike
  whatever their entry points are. And a descriptor built with any combination
  \<open>b0, \<dots>, b5\<close> of the six bits answers each query with the bit it was built with.
\<close>

theorem feature_query_reads_features:
  fixes p q :: "'d sbi_platform" and b0 b1 b2 b3 b4 b5 :: bool
  shows
  "sbi_platform_has_mmio_timer_value (Some p) = Inr (if bit (features p) 0 then 1 else 0)
   \<and> sbi_platform_has_hart_hotplug (Some p) = Inr (if bit (features p) 1 then 2 else 0)
   \<and> sbi_platform_has_pmp (Some p) = Inr (if bit (features p) 2 then 4 else 0)
   \<and> sbi_platform_has_scounteren (Some p) = Inr (if bit (features p) 3 then 8 else 0)
   \<and> sbi_platform_has_mcounteren (Some p) = Inr (if bit (features p) 4 then 16 else 0)
   \<and> sbi_platform_has_mfaults_delegation (Some p) = Inr (if bit (features p) 5 then 32 else 0)
   \<and> (features q = features p \<longrightarrow>
        sbi_platform_has_mmio_timer_value (Some q) = sbi_platform_has_mmio_timer_value (Some p)
        \<and> sbi_platform_has_hart_hotplug (Some q) = sbi_platform_has_hart_hotplug (Some p)
        \<and> sbi_platform_has_pmp (Some q) = sbi_platform_has_pmp (Some p)
        \<and> sbi_platform_has_scounteren (Some q) = sbi_platform_has_scounteren (Some p)
        \<and> sbi_platform_has_mcounteren (Some q) = sbi_platform_has_mcounteren (Some p)
        \<and> sbi_platform_has_mfaults_delegation (Some q) = sbi_platform_has_mfaults_delegation (Some p))
   \<and> (features p =
          (if b0 then 1 else 0) OR (if b1 then 2 else 0) OR (if b2 then 4 else 0) OR
          (if b3 then 8 else 0) OR (if b4 then 16 else 0) OR (if b5 then 32 else 0) \<longrightarrow>
        sbi_platform_has_mmio_timer_value (Some p) = Inr (if b0 then 1 else 0)
        \<and> sbi_platform_has_hart_hotplug (Some p) = Inr (if b1 then 2 else 0)
        \<and> sbi_platform_has_pmp (Some p) = Inr (if b2 then 4 else 0)
        \<and> sbi_platform_has_scounteren (Some p) = Inr (if b3 then 8 else 0)
        \<and> sbi_platform_has_mcounteren (Some p) = Inr (if b4 then 16 else 0)
        \<and> sbi_platform_has_mfaults_delegation (Some p) = Inr (if b5 then 32 else 0))"
proof -
  have indep: "features q = features p \<longrightarrow>
        sbi_platform_has_mmio_timer_value (Some q) = sbi_platform_has_mmio_timer_value (Some p)
        \<and> sbi_platform_has_hart_hotplug (Some q) = sbi_platform_has_hart_hotplug (Some p)
        \<and> sbi_platform_has_pmp (Some q) = sbi_platform_has_pmp (Some p)
        \<and> sbi_platform_has_scounteren (Some q) = sbi_platform_has_scounteren (Some p)
        \<and> sbi_platform_has_mcounteren (Some q) = sbi_platform_has_mcounteren (Some p)
        \<and> sbi_platform_has_mfaults_delegation (Some q) = sbi_platform_has_mfaults_delegation (Some p)"
    by (simp add: feature_query_values)
  have roundtrip: "features p =
          (if b0 then 1 else 0) OR (if b1 then 2 else 0) OR (if b2 then 4 else 0) OR
          (if b3 then 8 else 0) OR (if b4 then 16 else 0) OR (if b5 then 32 else 0) \<longrightarrow>
        sbi_platform_has_mmio_timer_value (Some p) = Inr (if b0 then 1 else 0)
        \<and> sbi_platform_has_hart_hotplug (Some p) = Inr (if b1 then 2 else 0)
        \<and> sbi_platform_has_pmp (Some p) = Inr (if b2 then 4 else 0)
        \<and> sbi_platform_has_scounteren (Some p) = Inr (if b3 then 8 else 0)
        \<and> sbi_platform_has_mcounteren (Some p) = Inr (if b4 then 16 else 0)
        \<and> sbi_platform_has_mfaults_delegation (Some p) = Inr (if b5 then 32 else 0)"
  proof
    assume eq: "features p =
          (if b0 then 1 else 0) OR (if b1 then 2 else 0) OR (if b2 then 4 else 0) OR
          (if b3 then 8 else 0) OR (if b4 then 16 else 0) OR (if b5 then 32 else 0)"
    have bits: "bit (features p) 0 = b0" "bit (features p) 1 = b1" "bit (features p) 2 = b2"
      "bit (features p) 3 = b3" "bit (features p) 4 = b4" "bit (features p) 5 = b5"
      unfolding eq by (fact combo_bits)+
    show "sbi_platform_has_mmio_timer_value (Some p) = Inr (if b0 then 1 else 0)
        \<and> sbi_platform_has_hart_hotplug (Some p) = Inr (if b1 then 2 else 0)
        \<and> sbi_platform_has_pmp (Some p) = Inr (if b2 then 4 else 0)
        \<and> sbi_platform_has_scounteren (Some p) = Inr (if b3 then 8 else 0)
        \<and> sbi_platform_has_mcounteren (Some p) = Inr (if b4 then 16 else 0)
        \<and> sbi_platform_has_mfaults_delegation (Some p) = Inr (if b5 then 32 else 0)"
      unfolding feature_query_bits bits by (intro conjI refl)
  qed
  show ?thesis
    by (intro conjI feature_query_bits indep roundtrip)
qed

theorem feature_query_reads_features_witness:
  "features (counting_platform\<lparr>features := scast SBI_PLATFORM_DEFAULT_FEATURES\<rparr>) =
     features (bare_platform\<lparr>features := scast SBI_PLATFORM_DEFAULT_FEATURES\<rparr>)
   \<and> sbi_platform_has_pmp (Some (counting_platform\<lparr>features := scast SBI_PLATFORM_DEFAULT_FEATURES\<rparr>)) =
       sbi_platform_has_pmp (Some (bare_platform\<lparr>features := scast SBI_PLATFORM_DEFAULT_FEATURES\<rparr>))
   \<and> sbi_platform_has_mmio_timer_value
        (Some (bare_platform\<lparr>features := scast SBI_PLATFORM_DEFAULT_FEATURES\<rparr>)) = Inr 1
   \<and> sbi_platform_has_hart_hotplug
        (Some (bare_platform\<lparr>features := scast SBI_PLATFORM_DEFAULT_FEATURES\<rparr>)) = Inr 0
   \<and> sbi_platform_has_pmp
        (Some (bare_platform\<lparr>features := scast SBI_PLATFORM_DEFAULT_FEATURES\<rparr>)) = Inr 4
   \<and> sbi_platform_has_scounteren
        (Some (bare_platform\<lparr>features := scast SBI_PLATFORM_DEFAULT_FEATURES\<rparr>)) = Inr 8
   \<and> sbi_platform_has_mcounteren
        (Some (bare_platform\<lparr>features := scast SBI_PLATFORM_DEFAULT_FEATURES\<rparr>)) = Inr 16
   \<and> sbi_platform_has_mfaults_delegation
        (Some (bare_platform\<lparr>features := scast SBI_PLATFORM_DEFAULT_FEATURES\<rparr>)) = Inr 32"
proof -
  have default: "scast SBI_PLATFORM_DEFAULT_FEATURES = (61 :: u64)"
    by (simp add: SBI_PLATFORM_DEFAULT_FEATURES_def SBI_PLATFORM_HAS_MMIO_TIMER_VALUE_def
        SBI_PLATFORM_HAS_PMP_def SBI_PLATFORM_HAS_SCOUNTEREN_def SBI_PLATFORM_HAS_MCOUNTEREN_def
        SBI_PLATFORM_HAS_MFAULTS_DELEGATION_def)
  show ?thesis
    using feature_query_reads_features
      [of "bare_platform\<lparr>features := scast SBI_PLATFORM_DEFAULT_FEATURES\<rparr>"
          "counting_platform\<lparr>features := scast SBI_PLATFORM_DEFAULT_FEATURES\<rparr>"
          True False True True True True]
    by (simp add: default)
qed

section \<open>The published offsets\<close>

text \<open>
  Claim C10. In the packed layout the four leading members lie at the offsets the header
  publishes: the name at \<open>0x0\<close>, \<^verbatim>\<open>features\<close> at \<open>0x40\<close>, \<^verbatim>\<open>hart_count\<close> at
  \<open>0x48\<close> and \<^verbatim>\<open>hart_stack_size\<close> at \<open>0x4c\<close>, whatever the width of a function
  pointer.
\<close>

theorem leading_member_offsets:
  "packed_offset ps sbi_platform_members ''name'' = Some SBI_PLATFORM_NAME_OFFSET
   \<and> packed_offset ps sbi_platform_members ''features'' = Some SBI_PLATFORM_FEATURES_OFFSET
   \<and> packed_offset ps sbi_platform_members ''hart_count'' = Some SBI_PLATFORM_HART_COUNT_OFFSET
   \<and> packed_offset ps sbi_platform_members ''hart_stack_size'' =
       Some SBI_PLATFORM_HART_STACK_SIZE_OFFSET"
  by (simp add: sbi_platform_members_def SBI_PLATFORM_NAME_OFFSET_def
      SBI_PLATFORM_FEATURES_OFFSET_def SBI_PLATFORM_HART_COUNT_OFFSET_def
      SBI_PLATFORM_HART_STACK_SIZE_OFFSET_def)

end
